theory Spec2Isabelle
  imports Complex_Main "HOL-Library.AList" "HOL-Library.Product_Lexorder" "HOL-Library.Log_Nat"
begin

section \<open>Space Weather Visualizer: a shallow embedding of app.py\<close>

text \<open>
  The program is one Streamlit script. One run of the script is modelled as a function
  from the widget values and the HTTP collaborator to the list of things the script shows
  or does, in order, together with the exception that ended the run, if any.

  Modelling decisions:
  \<^item> Python dictionaries are association lists in insertion order; \<open>d[k] = v\<close> and
    \<open>d.update\<close> are \<^const>\<open>AList.update\<close> (the position of an existing key is kept).
  \<^item> Strings are ASCII character lists.
  \<^item> A JSON number is the rational its literal denotes. A number that enters a frame
    is a float64: a rational rounded to 53 significant bits, to nearest, ties to even.
    The mean of the GST branch is computed as pandas computes it, each operation
    rounded. Overflow to infinity is not modelled; the exponent is bounded below, so
    subnormal numbers are.
  \<^item> \<open>requests\<close>, \<open>pandas\<close> and \<open>plotly\<close> are libraries outside the repository. The HTTP
    call and \<open>pd.to_datetime(\<dots>, errors='coerce').dt.date\<close> are parameters; the pandas
    operations the script uses (\<open>json_normalize\<close>, \<open>explode\<close>, \<open>groupby\<close>) are
    modelled after pandas 1.3 and later.
  \<^item> \<open>st.cache_data\<close> is not modelled: a run starts with an empty cache, so the body of
    \<open>fetch_space_weather\<close> is executed.
  \<^item> The static page furniture (style sheet, title, glossary, help text) is left out.
\<close>

subsection \<open>Strings and numbers as text\<close>

definition digit_char :: "nat \<Rightarrow> char" where
  "digit_char n = ''0123456789'' ! n"

text \<open>Python's \<open>str(n)\<close> for a non-negative integer.\<close>

fun str_nat :: "nat \<Rightarrow> string" where
  "str_nat n = (if n < 10 then [digit_char n] else str_nat (n div 10) @ [digit_char (n mod 10)])"

declare str_nat.simps [simp del]

text \<open>The format \<open>%02d\<close>.\<close>

definition pad2 :: "nat \<Rightarrow> string" where
  "pad2 n = (if n < 10 then CHR ''0'' # str_nat n else str_nat n)"

text \<open>The format \<open>%04d\<close>.\<close>

definition pad4 :: "nat \<Rightarrow> string" where
  "pad4 n = replicate (4 - length (str_nat n)) (CHR ''0'') @ str_nat n"

definition is_digit :: "char \<Rightarrow> bool" where
  "is_digit c = (c \<in> set ''0123456789'')"

text \<open>\<open>str.lower\<close> on ASCII text.\<close>

definition lower_char :: "char \<Rightarrow> char" where
  "lower_char c =
     (case map_of (zip ''ABCDEFGHIJKLMNOPQRSTUVWXYZ'' ''abcdefghijklmnopqrstuvwxyz'') c of
        None \<Rightarrow> c | Some l \<Rightarrow> l)"

definition lower :: "string \<Rightarrow> string" where
  "lower s = map lower_char s"

fun starts_with :: "string \<Rightarrow> string \<Rightarrow> bool" where
  "starts_with [] s = True"
| "starts_with (p # ps) [] = False"
| "starts_with (p # ps) (c # cs) = (p = c \<and> starts_with ps cs)"

text \<open>Python's \<open>sub in s\<close> on strings.\<close>

fun contains :: "string \<Rightarrow> string \<Rightarrow> bool" where
  "contains sub [] = (sub = [])"
| "contains sub (c # cs) = (starts_with sub (c # cs) \<or> contains sub cs)"

subsection \<open>Calendar dates\<close>

text \<open>
  A \<open>datetime.date\<close> is the triple (year, month, day); the lexicographic order on the
  triple is the order of dates.
\<close>

type_synonym date = "nat \<times> nat \<times> nat"

text \<open>
  \<open>d.strftime("%Y-%m-%d")\<close>. The year is printed by the C library, which does not pad
  it; month and day are two digits.
\<close>

fun strftime_ymd :: "date \<Rightarrow> string" where
  "strftime_ymd (y, m, d) = str_nat y @ ''-'' @ pad2 m @ ''-'' @ pad2 d"

text \<open>\<open>str(d)\<close>, that is \<open>d.isoformat()\<close>.\<close>

fun isoformat :: "date \<Rightarrow> string" where
  "isoformat (y, m, d) = pad4 y @ ''-'' @ pad2 m @ ''-'' @ pad2 d"

text \<open>
  The dates the date picker hands over: a four-digit year, a month and a day of month.
\<close>

fun picker_date :: "date \<Rightarrow> bool" where
  "picker_date (y, m, d) = (1000 \<le> y \<and> y \<le> 9999 \<and> 1 \<le> m \<and> m \<le> 12 \<and> 1 \<le> d \<and> d \<le> 31)"

text \<open>
  The shape of an ISO 8601 calendar date without a time component, \<open>YYYY-MM-DD\<close>: ten
  characters, digits around two hyphens.
\<close>

definition is_iso_date :: "string \<Rightarrow> bool" where
  "is_iso_date s =
     (length s = 10 \<and> list_all is_digit (take 4 s) \<and> s ! 4 = CHR ''-'' \<and>
      list_all is_digit (take 2 (drop 5 s)) \<and> s ! 7 = CHR ''-'' \<and>
      list_all is_digit (drop 8 s))"

subsection \<open>JSON values\<close>

datatype json =
    JNull
  | JBool bool
  | JNum rat
  | JStr string
  | JArr "json list"
  | JObj "(string \<times> json) list"

text \<open>Python truthiness of a decoded JSON value (\<open>if data:\<close>); \<open>None\<close> is \<^const>\<open>JNull\<close>.\<close>

fun truthy :: "json \<Rightarrow> bool" where
  "truthy JNull = False"
| "truthy (JBool b) = b"
| "truthy (JNum q) = (q \<noteq> 0)"
| "truthy (JStr s) = (s \<noteq> [])"
| "truthy (JArr xs) = (xs \<noteq> [])"
| "truthy (JObj kvs) = (kvs \<noteq> [])"

subsection \<open>The event tables\<close>

text \<open>\<open>event_descriptions\<close>, lines 8 to 18.\<close>

definition event_descriptions :: "(string \<times> string) list" where
  "event_descriptions =
    [(''CME'', ''Coronal Mass Ejection (CME): A massive burst of solar wind and magnetic fields rising above the solar corona.''),
     (''GST'', ''Geomagnetic Storm (GST): Disturbances in Earth's magnetosphere caused by solar wind shocks.''),
     (''FLR'', ''Solar Flare (FLR): A sudden flash of increased brightness on the Sun, usually observed near its surface.''),
     (''SEP'', ''Solar Energetic Particle (SEP): High-energy particles emitted by the Sun, often associated with solar flares and CMEs.''),
     (''IPS'', ''Interplanetary Shock (IPS): Shock waves traveling through space, often caused by CMEs or solar wind variations.''),
     (''RBE'', ''Radiation Belt Enhancement (RBE): An increase in the density of charged particles in Earth's radiation belts.''),
     (''MPC'', ''Magnetopause Crossing (MPC): When solar wind plasma crosses Earth's magnetopause, the boundary of the magnetosphere.''),
     (''HSS'', ''High Speed Stream (HSS): Streams of fast-moving solar wind emanating from coronal holes on the Sun.''),
     (''notifications'', ''Notifications: General alerts and updates related to various space weather events.'')]"

text \<open>\<open>event_types\<close>, lines 73 to 83: display name to event code.\<close>

definition event_types :: "(string \<times> string) list" where
  "event_types =
    [(''CME (Coronal Mass Ejection)'', ''CME''),
     (''GST (Geomagnetic Storm)'', ''GST''),
     (''FLR (Solar Flare)'', ''FLR''),
     (''SEP (Solar Energetic Particle)'', ''SEP''),
     (''IPS (Interplanetary Shock)'', ''IPS''),
     (''RBE (Radiation Belt Enhancement)'', ''RBE''),
     (''MPC (Magnetopause Crossing)'', ''MPC''),
     (''HSS (High Speed Stream)'', ''HSS''),
     (''Notifications'', ''notifications'')]"

text \<open>\<open>date_field_mapping\<close>, lines 183 to 193.\<close>

definition date_field_mapping :: "(string \<times> string) list" where
  "date_field_mapping =
    [(''CME'', ''startTime''), (''GST'', ''startTime''), (''FLR'', ''beginTime''),
     (''SEP'', ''eventTime''), (''IPS'', ''eventTime''), (''RBE'', ''eventTime''),
     (''MPC'', ''eventTime''), (''HSS'', ''eventTime''),
     (''notifications'', ''messageIssueTime'')]"

text \<open>\<open>y_label_mapping\<close>, lines 196 to 206.\<close>

definition y_label_mapping :: "(string \<times> string) list" where
  "y_label_mapping =
    [(''CME'', ''Number of CMEs''), (''GST'', ''Average Kp Index''),
     (''FLR'', ''Number of Solar Flares''),
     (''SEP'', ''Number of Solar Energetic Particles''),
     (''IPS'', ''Number of Interplanetary Shocks''),
     (''RBE'', ''Number of Radiation Belt Enhancements''),
     (''MPC'', ''Number of Magnetopause Crossings''),
     (''HSS'', ''Number of High Speed Streams''),
     (''notifications'', ''Number of Notifications'')]"

text \<open>\<open>d.get(k, default)\<close>.\<close>

definition dict_get :: "('k \<times> 'v) list \<Rightarrow> 'k \<Rightarrow> 'v \<Rightarrow> 'v" where
  "dict_get d k dflt = (case map_of d k of None \<Rightarrow> dflt | Some v \<Rightarrow> v)"


subsection \<open>Query parameters and the fetch\<close>

datatype pval = PStr string | PInt int

type_synonym params = "(string \<times> pval) list"

text \<open>\<open>d.update(other)\<close>: the entries of \<open>other\<close> are stored one by one.\<close>

definition dict_update :: "('k \<times> 'v) list \<Rightarrow> ('k \<times> 'v) list \<Rightarrow> ('k \<times> 'v) list" where
  "dict_update d other = fold (\<lambda>(k, v). AList.update k v) other d"

text \<open>The value of \<open>params\<close> when the request is made, lines 135 to 153.\<close>

definition query_params :: "string \<Rightarrow> date \<Rightarrow> date \<Rightarrow> string \<Rightarrow> params" where
  "query_params event start end' key =
     (let params = [(''startDate'', PStr (strftime_ymd start)),
                    (''endDate'', PStr (strftime_ymd end')),
                    (''api_key'', PStr key)]
      in if event = ''CME'' then
           dict_update params
             [(''mostAccurateOnly'', PStr ''true''),
              (''completeEntryOnly'', PStr ''true''),
              (''speed'', PInt 500),
              (''halfAngle'', PInt 30),
              (''catalog'', PStr ''ALL'')]
         else if event = ''notifications'' then
           dict_update params [(''type'', PStr ''all'')]
         else params)"

subsection \<open>What a run shows and how it can end\<close>

datatype exn =
    NameError string
  | KeyError string
  | TypeError string
  | PandasError string
  | JSONDecodeError
  | RequestException string

datatype cell = CJson json | CDate "date option"

type_synonym row = "(string \<times> cell) list"

text \<open>
  A pandas DataFrame: the column labels in order and the rows. A row stores the cells it
  has; a label without an entry is a missing value (NaN). \<^term>\<open>CDate None\<close> is NaT.
\<close>

record dataframe =
  columns :: "string list"
  rows :: "row list"

datatype chart_kind = Line | Bar

text \<open>The grouped frame a chart is drawn from: counts per date, or means per date
  (\<^const>\<open>None\<close> is NaN).\<close>

datatype series =
    Counts "(date \<times> nat) list"
  | Means "(date \<times> rat option) list"

text \<open>The arguments of \<open>px.line\<close> and \<open>px.bar\<close>.\<close>

record chart =
  kind :: chart_kind
  data_frame :: series
  x_column :: string
  y_column :: string
  title :: string
  labels :: "(string \<times> string) list"
  markers :: bool
  template :: string

text \<open>One entry for each call that shows something or reaches the network.\<close>

datatype ui =
    Sidebar_error string
  | Sidebar_write string
  | Requests_get string params
  | St_error string
  | St_warning string
  | St_success string
  | St_write string
  | St_json json
  | St_markdown string
  | St_subheader string
  | St_plotly_chart chart
  | St_write_frame dataframe

text \<open>The reply of \<open>requests.get\<close>; \<open>body_json\<close> is \<^const>\<open>None\<close> when the body is not JSON.\<close>

record response =
  status_code :: nat
  body_text :: string
  body_json :: "json option"

type_synonym http = "string \<Rightarrow> params \<Rightarrow> exn + response"

text \<open>
  \<open>fetch_space_weather\<close>, lines 133 to 161. Python's \<open>None\<close> is returned as \<^const>\<open>JNull\<close>.
\<close>

definition fetch_space_weather ::
  "http \<Rightarrow> string \<Rightarrow> date \<Rightarrow> date \<Rightarrow> string \<Rightarrow> ui list \<times> (exn + json)" where
  "fetch_space_weather http event start end' key =
     (let base_url = ''https://api.nasa.gov/DONKI/'' @ event;
          params = query_params event start end' key
      in case http base_url params of
           Inl e \<Rightarrow> ([Requests_get base_url params], Inl e)
         | Inr response \<Rightarrow>
             if status_code response = 200 then
               (case body_json response of
                  None \<Rightarrow> ([Requests_get base_url params], Inl JSONDecodeError)
                | Some j \<Rightarrow> ([Requests_get base_url params], Inr j))
             else
               ([Requests_get base_url params,
                 St_error (''Error fetching data: '' @ str_nat (status_code response) @
                           '' - '' @ body_text response)],
                Inr JNull))"

subsection \<open>pandas: json_normalize\<close>

fun is_dict :: "json \<Rightarrow> bool" where
  "is_dict (JObj kvs) = True"
| "is_dict v = False"

text \<open>
  \<open>_normalise_json\<close>: nested objects are flattened into one dictionary, the keys joined
  with a dot.
\<close>

fun normalise_json :: "json \<Rightarrow> string \<Rightarrow> (string \<times> json) list \<Rightarrow> (string \<times> json) list"
  and normalise_items ::
    "(string \<times> json) list \<Rightarrow> string \<Rightarrow> (string \<times> json) list \<Rightarrow> (string \<times> json) list"
where
  "normalise_json (JObj kvs) key_string nd = normalise_items kvs key_string nd"
| "normalise_json v key_string nd = AList.update key_string v nd"
| "normalise_items [] key_string nd = nd"
| "normalise_items ((k, v) # kvs) key_string nd =
     normalise_items kvs key_string
       (normalise_json v (if key_string = [] then k else key_string @ ''.'' @ k) nd)"

text \<open>\<open>_normalise_json_ordered\<close>: the top-level scalars first, then the flattened rest.\<close>

definition normalise_json_ordered :: "(string \<times> json) list \<Rightarrow> (string \<times> json) list" where
  "normalise_json_ordered data =
     (let top_dict = dict_update [] (filter (\<lambda>(k, v). \<not> is_dict v) data);
          nested_dict =
            normalise_json (JObj (dict_update [] (filter (\<lambda>(k, v). is_dict v) data))) [] []
      in dict_update top_dict nested_dict)"

text \<open>
  \<open>_simple_json_normalize\<close> on one element of the input: an object is flattened, a
  scalar gives the empty dictionary. An element that is itself a list has no place in a
  frame of records; the model stops there with \<^const>\<open>PandasError\<close>.
\<close>

fun simple_json_normalize :: "json \<Rightarrow> exn + (string \<times> json) list" where
  "simple_json_normalize (JObj kvs) = Inr (normalise_json_ordered kvs)"
| "simple_json_normalize (JArr xs) = Inl (PandasError ''nested list'')"
| "simple_json_normalize v = Inr []"

fun sequence :: "(exn + 'a) list \<Rightarrow> exn + 'a list" where
  "sequence [] = Inr []"
| "sequence (x # xs) =
     (case x of Inl e \<Rightarrow> Inl e
      | Inr v \<Rightarrow> (case sequence xs of Inl e \<Rightarrow> Inl e | Inr vs \<Rightarrow> Inr (v # vs)))"

text \<open>The labels of a frame built from dictionaries: every key, in order of first use.\<close>

definition first_seen :: "'a list \<Rightarrow> 'a list" where
  "first_seen xs = rev (remdups (rev xs))"

definition json_normalize :: "json list \<Rightarrow> exn + dataframe" where
  "json_normalize data =
     (case sequence (map simple_json_normalize data) of
        Inl e \<Rightarrow> Inl e
      | Inr ds \<Rightarrow>
          Inr \<lparr>columns = first_seen (concat (map (map fst) ds)),
               rows = map (map (\<lambda>(k, v). (k, CJson v))) ds\<rparr>)"

subsection \<open>pandas: columns, dates, explode, groupby\<close>

text \<open>The cell of a row under a label; a missing value reads as null.\<close>

definition cell_of :: "row \<Rightarrow> string \<Rightarrow> cell" where
  "cell_of r c = (case map_of r c of None \<Rightarrow> CJson JNull | Some v \<Rightarrow> v)"

text \<open>\<open>df[c]\<close>.\<close>

definition get_column :: "dataframe \<Rightarrow> string \<Rightarrow> exn + cell list" where
  "get_column df c =
     (if c \<in> set (columns df) then Inr (map (\<lambda>r. cell_of r c) (rows df))
      else Inl (KeyError c))"

text \<open>
  \<open>pd.to_datetime(col, errors='coerce').dt.date\<close> on one cell. The reader \<open>to_date\<close> of
  a JSON value is the parameter; it answers \<^const>\<open>None\<close> (NaT) where pandas cannot
  read a date. A missing value is always NaT.
\<close>

fun cell_date :: "(json \<Rightarrow> date option) \<Rightarrow> cell \<Rightarrow> date option" where
  "cell_date to_date (CJson JNull) = None"
| "cell_date to_date (CJson v) = to_date v"
| "cell_date to_date (CDate d) = d"

text \<open>\<open>df['date'] = values\<close>.\<close>

definition assign_date :: "dataframe \<Rightarrow> date option list \<Rightarrow> dataframe" where
  "assign_date df ds =
     \<lparr>columns = (if ''date'' \<in> set (columns df) then columns df else columns df @ [''date'']),
      rows = map (\<lambda>(r, d). AList.update ''date'' (CDate d) r) (zip (rows df) ds)\<rparr>"

text \<open>The \<open>date\<close> column as \<open>groupby\<close> reads it.\<close>

definition date_column :: "dataframe \<Rightarrow> date option list" where
  "date_column df =
     map (\<lambda>r. case map_of r ''date'' of Some (CDate d) \<Rightarrow> d | _ \<Rightarrow> None) (rows df)"

text \<open>The group keys of \<open>groupby('date')\<close>: the dates present, NaT dropped, ascending.\<close>

definition group_keys :: "date option list \<Rightarrow> date list" where
  "group_keys ds = sort (remdups (List.map_filter (\<lambda>d. d) ds))"

text \<open>\<open>groupby('date').size().reset_index(name='count')\<close>.\<close>

definition groupby_size :: "date option list \<Rightarrow> (date \<times> nat) list" where
  "groupby_size ds = map (\<lambda>d. (d, count_list ds (Some d))) (group_keys ds)"

text \<open>
  Rounding to the nearest integer, ties to the even one.
\<close>

definition round_even :: "rat \<Rightarrow> int" where
  "round_even x =
     (let f = \<lfloor>x\<rfloor>; r = x - of_int f
      in if r < 1 / 2 then f else if 1 / 2 < r then f + 1 else if even f then f else f + 1)"

text \<open>
  The exponent of the last place of a positive number in float64: the \<open>e\<close> with
  \<open>2^52 \<le> x / 2^e < 2^53\<close>, and never below \<open>-1074\<close>.
\<close>

definition exponent :: "rat \<Rightarrow> int" where
  "exponent x =
     (case quotient_of x of
        (a, b) \<Rightarrow>
          (let e0 = bitlen a - bitlen b - 53;
               e = (if 2 powi (e0 + 53) \<le> x then e0 + 1 else e0)
           in max e (- 1074)))"

definition float64_pos :: "rat \<Rightarrow> rat" where
  "float64_pos x = of_int (round_even (x / 2 powi exponent x)) * 2 powi exponent x"

text \<open>The float64 nearest to a rational: the result of every float64 operation.\<close>

definition float64 :: "rat \<Rightarrow> rat" where
  "float64 x = (if x = 0 then 0 else if x < 0 then - float64_pos (- x) else float64_pos x)"

text \<open>
  The sum of one group in pandas' \<open>group_mean\<close>: compensated (Kahan) summation in
  float64, \<open>y = val - compensation; t = sumx + y; compensation = t - sumx - y;
  sumx = t\<close>.
\<close>

fun kahan :: "rat \<Rightarrow> rat \<Rightarrow> rat list \<Rightarrow> rat" where
  "kahan sumx compensation [] = sumx"
| "kahan sumx compensation (val # vals) =
     (let y = float64 (val - compensation);
          t = float64 (sumx + y);
          c = float64 (float64 (t - sumx) - y)
      in kahan t c vals)"

text \<open>
  The mean of the values present, \<open>sumx / count\<close> in float64; NaN when there is none.
\<close>

definition mean :: "rat list \<Rightarrow> rat option" where
  "mean vs = (if vs = [] then None
              else Some (float64 (kahan 0 0 vs / of_nat (length vs))))"

text \<open>The values of the rows of one date, missing values skipped.\<close>

definition values_on :: "(date option \<times> rat option) list \<Rightarrow> date \<Rightarrow> rat list" where
  "values_on rs d = List.map_filter snd (filter (\<lambda>r. fst r = Some d) rs)"

text \<open>\<open>groupby('date').agg({'kpIndex': 'mean'}).reset_index()\<close> on (date, kpIndex) rows.\<close>

definition groupby_mean :: "(date option \<times> rat option) list \<Rightarrow> (date \<times> rat option) list" where
  "groupby_mean rs = map (\<lambda>d. (d, mean (values_on rs d))) (group_keys (map fst rs))"

text \<open>
  A cell of the column that is averaged: a number, held as float64, or a missing value.
  Any other value makes the column non-numeric and the aggregation fail.
\<close>

fun numeric :: "cell \<Rightarrow> exn + rat option" where
  "numeric (CJson (JNum q)) = Inr (Some (float64 q))"
| "numeric (CJson JNull) = Inr None"
| "numeric c = Inl (TypeError ''agg function failed'')"

text \<open>\<open>df.explode(c)\<close>: one row per element of a list cell; an empty list leaves NaN.\<close>

definition explode_row :: "string \<Rightarrow> row \<Rightarrow> row list" where
  "explode_row c r =
     (case cell_of r c of
        CJson (JArr xs) \<Rightarrow>
          (if xs = [] then [AList.update c (CJson JNull) r]
           else map (\<lambda>v. AList.update c (CJson v) r) xs)
      | _ \<Rightarrow> [r])"

definition explode :: "dataframe \<Rightarrow> string \<Rightarrow> dataframe" where
  "explode df c = \<lparr>columns = columns df, rows = concat (map (explode_row c) (rows df))\<rparr>"

text \<open>A cell handed to \<open>json_normalize\<close>; a date is a scalar there.\<close>

fun cell_json :: "cell \<Rightarrow> json" where
  "cell_json (CJson v) = v"
| "cell_json (CDate d) = JNull"

subsection \<open>The script: resolving the date column\<close>

text \<open>The test of line 218 on one column label.\<close>

definition date_like :: "string \<Rightarrow> bool" where
  "date_like col = (contains ''date'' (lower col) \<or> contains ''time'' (lower col))"

text \<open>
  Lines 212 to 225: the messages shown and the frame with its \<open>date\<close> column set.
  \<open>date_field_mapping.get(api_endpoint, None)\<close> is the \<^const>\<open>map_of\<close> lookup.
\<close>

definition resolve_date ::
  "(json \<Rightarrow> date option) \<Rightarrow> string \<Rightarrow> dataframe \<Rightarrow> ui list \<times> dataframe" where
  "resolve_date to_date api_endpoint df =
     (let date_field = map_of date_field_mapping api_endpoint;
          found = (case date_field of
                     None \<Rightarrow> None
                   | Some f \<Rightarrow> if f \<noteq> [] \<and> f \<in> set (columns df) then Some f else None)
      in case found of
           Some f \<Rightarrow>
             ([], assign_date df (map (\<lambda>r. cell_date to_date (cell_of r f)) (rows df)))
         | None \<Rightarrow>
             (let possible_keys = filter date_like (columns df)
              in case possible_keys of
                   f # others \<Rightarrow>
                     ([St_warning (''Using '' @ [CHR 0x27] @ f @ [CHR 0x27] @ '' as the date field'')],
                      assign_date df (map (\<lambda>r. cell_date to_date (cell_of r f)) (rows df)))
                 | [] \<Rightarrow>
                     ([St_error ''No suitable date field found in the data''],
                      assign_date df (replicate (length (rows df)) None))))"

subsection \<open>The script: the grouped frame of the GST branch\<close>

text \<open>The (date, kpIndex) rows of \<open>kp_df\<close>, lines 245 to 247, as the aggregation reads them.\<close>

definition kp_rows ::
  "(json \<Rightarrow> date option) \<Rightarrow> dataframe \<Rightarrow> exn + (date option \<times> rat option) list" where
  "kp_rows to_date df =
     (let exploded = explode df ''allKpIndex''
      in case json_normalize (map (\<lambda>r. cell_json (cell_of r ''allKpIndex'')) (rows exploded)) of
           Inl e \<Rightarrow> Inl e
         | Inr kp_df \<Rightarrow>
             (case get_column kp_df ''observedTime'' of
                Inl e \<Rightarrow> Inl e
              | Inr observed \<Rightarrow>
                  (let kp_dated = assign_date kp_df (map (cell_date to_date) observed)
                   in case get_column kp_dated ''kpIndex'' of
                        Inl e \<Rightarrow> Inl e
                      | Inr ks \<Rightarrow>
                          (case sequence (map numeric ks) of
                             Inl e \<Rightarrow> Inl e
                           | Inr vs \<Rightarrow> Inr (zip (date_column kp_dated) vs)))))"

text \<open>Line 248.\<close>

definition kp_grouped ::
  "(json \<Rightarrow> date option) \<Rightarrow> dataframe \<Rightarrow> exn + (date \<times> rat option) list" where
  "kp_grouped to_date df =
     (case kp_rows to_date df of Inl e \<Rightarrow> Inl e | Inr rs \<Rightarrow> Inr (groupby_mean rs))"

subsection \<open>The script: the plotting branches\<close>

text \<open>\<open>df.groupby('date').size().reset_index(name='count')\<close>, lines 230, 264 and 278.\<close>

definition count_grouped :: "dataframe \<Rightarrow> (date \<times> nat) list" where
  "count_grouped df = groupby_size (date_column df)"

definition count_chart :: "chart_kind \<Rightarrow> (date \<times> nat) list \<Rightarrow> string \<Rightarrow> string \<Rightarrow> chart" where
  "count_chart k df_grouped ttl y_label =
     \<lparr>kind = k, data_frame = Counts df_grouped, x_column = ''date'', y_column = ''count'',
      title = ttl, labels = [(''date'', ''Date''), (''count'', y_label)],
      markers = (k = Line), template = ''plotly_dark''\<rparr>"

definition kp_chart :: "(date \<times> rat option) list \<Rightarrow> string \<Rightarrow> string \<Rightarrow> chart" where
  "kp_chart df_grouped ttl y_label =
     \<lparr>kind = Line, data_frame = Means df_grouped, x_column = ''date'', y_column = ''kpIndex'',
      title = ttl, labels = [(''date'', ''Date''), (''kpIndex'', y_label)],
      markers = True, template = ''plotly_dark''\<rparr>"

text \<open>
  Lines 228 to 288. The CME branch names \<open>label\<close>, which the script never defines: the
  arguments of \<open>px.line\<close> cannot be evaluated and the run ends with a NameError after the
  three header calls.
\<close>

definition plot ::
  "(json \<Rightarrow> date option) \<Rightarrow> string \<Rightarrow> string \<Rightarrow> date \<Rightarrow> date \<Rightarrow> string \<Rightarrow> dataframe
     \<Rightarrow> ui list \<times> exn option" where
  "plot to_date api_endpoint selected_event_display start_date end_date y_label df =
     (if api_endpoint = ''CME'' then
        (let df_grouped = count_grouped df
         in ([St_markdown ''### Selected Event Information'',
              St_write (dict_get event_descriptions api_endpoint ''No description available.''),
              St_subheader (selected_event_display @ '' from '' @ isoformat start_date @
                            '' to '' @ isoformat end_date)],
             Some (NameError ''label'')))
      else if api_endpoint = ''GST'' then
        (if ''allKpIndex'' \<in> set (columns df) then
           (case kp_grouped to_date df of
              Inl e \<Rightarrow> ([], Some e)
            | Inr df_grouped \<Rightarrow>
                ([St_markdown ''### Selected Event Information'',
                  St_write (dict_get event_descriptions api_endpoint ''No description available''),
                  St_subheader (selected_event_display @ '' Kp Index from '' @
                                isoformat start_date @ '' to '' @ isoformat end_date),
                  St_plotly_chart
                    (kp_chart df_grouped
                       (''Average Kp Index of '' @ selected_event_display @ '' Over Time'')
                       y_label)],
                 None))
         else ([St_error ''No 'allKpIndex' data available to plot.''], None))
      else if api_endpoint = ''notifications'' then
        ([St_markdown ''### Selected Event Information'',
          St_write (dict_get event_descriptions api_endpoint ''No description available.''),
          St_subheader (selected_event_display @ '' from '' @ isoformat start_date @
                        '' to '' @ isoformat end_date),
          St_plotly_chart
            (count_chart Bar (count_grouped df)
               (''Number of '' @ selected_event_display @ '' Over Time'') y_label)],
         None)
      else
        ([St_markdown ''### Selected Event Information'',
          St_write (dict_get event_descriptions api_endpoint ''No description available.''),
          St_subheader (selected_event_display @ '' from '' @ isoformat start_date @
                        '' to '' @ isoformat end_date),
          St_plotly_chart
            (count_chart Bar (count_grouped df)
               (''Number of '' @ selected_event_display @ '' Over Time'') y_label)],
         None))"

text \<open>
  Lines 179 to 294: what is done with fetched data. \<open>isinstance(data, list)\<close> is the
  case \<^const>\<open>JArr\<close>; the \<open>else\<close> of line 293 belongs to that test.
\<close>

definition process ::
  "(json \<Rightarrow> date option) \<Rightarrow> string \<Rightarrow> string \<Rightarrow> date \<Rightarrow> date \<Rightarrow> json \<Rightarrow> ui list \<times> exn option" where
  "process to_date api_endpoint selected_event_display start_date end_date data =
     (case data of
        JArr items \<Rightarrow>
          (case json_normalize items of
             Inl e \<Rightarrow> ([], Some e)
           | Inr df \<Rightarrow>
               (let y_label = dict_get y_label_mapping api_endpoint ''Count'';
                    (shown, dated) = resolve_date to_date api_endpoint df;
                    (drawn, err) = plot to_date api_endpoint selected_event_display
                                     start_date end_date y_label dated
                in (shown @ drawn @ (if err = None then [St_write_frame dated] else []), err)))
      | _ \<Rightarrow> ([St_write ''No data available for the selected parameters.''], None))"

subsection \<open>The script: one run\<close>

text \<open>
  Lines 91 to 111 and 164 to 294. The selection box returns one of the keys of
  \<open>event_types\<close>; any other string would be a KeyError at line 91.
\<close>

definition app ::
  "http \<Rightarrow> (json \<Rightarrow> date option) \<Rightarrow> string \<Rightarrow> string \<Rightarrow> date \<Rightarrow> date \<Rightarrow> bool
     \<Rightarrow> ui list \<times> exn option" where
  "app http to_date api_key selected_event_display start_date end_date fetch_button =
     (case map_of event_types selected_event_display of
        None \<Rightarrow> ([], Some (KeyError selected_event_display))
      | Some api_endpoint \<Rightarrow>
          (let sidebar =
                 (if start_date > end_date
                  then [Sidebar_error ''Error: End date must fall after start date.'']
                  else []) @
                 [Sidebar_write
                    (dict_get event_descriptions api_endpoint ''No description available'')]
           in if fetch_button then
                (if api_key = [] then
                   (sidebar @ [St_error ''Please enter your NASA API Key to proceed.''], None)
                 else
                   (case fetch_space_weather http api_endpoint start_date end_date api_key of
                      (net, Inl e) \<Rightarrow> (sidebar @ net, Some e)
                    | (net, Inr data) \<Rightarrow>
                        if truthy data then
                          (case process to_date api_endpoint selected_event_display
                                  start_date end_date data of
                             (out, err) \<Rightarrow>
                               (sidebar @ net @
                                [St_success ''Data fetched successfully!'', St_json data] @ out,
                                err))
                        else (sidebar @ net, None)))
              else (sidebar, None)))"

subsection \<open>The date of a row, in the words of the specification\<close>

text \<open>
  The calendar date read from a row under a label: undefined (NaT) when the row has
  nothing or null under the label, or when the value does not parse.
\<close>

definition date_read :: "(json \<Rightarrow> date option) \<Rightarrow> row \<Rightarrow> string \<Rightarrow> date option" where
  "date_read to_date r f =
     (case map_of r f of
        None \<Rightarrow> None
      | Some (CJson JNull) \<Rightarrow> None
      | Some (CJson v) \<Rightarrow> to_date v
      | Some (CDate d) \<Rightarrow> d)"

text \<open>
  The keys of a record in their original order, nested keys addressed by dotted path.
\<close>

definition original_keys :: "json \<Rightarrow> string list" where
  "original_keys r = map fst (normalise_json r [] [])"

subsection \<open>Storm records and tidy rows, in the words of the specification\<close>

text \<open>The key-value pairs of an object.\<close>

fun entries :: "json \<Rightarrow> (string \<times> json) list" where
  "entries (JObj kvs) = kvs"
| "entries v = []"

text \<open>\<open>r.get(k)\<close>: the value under a key, null when the key is absent.\<close>

definition json_get :: "json \<Rightarrow> string \<Rightarrow> json" where
  "json_get r k = (case map_of (entries r) k of None \<Rightarrow> JNull | Some v \<Rightarrow> v)"

text \<open>An object with distinct keys none of whose values is itself an object.\<close>

fun flat_object :: "json \<Rightarrow> bool" where
  "flat_object (JObj kvs) = (distinct (map fst kvs) \<and> list_all (\<lambda>kv. \<not> is_dict (snd kv)) kvs)"
| "flat_object v = False"

text \<open>The sub-readings of a storm record: the elements of its \<open>allKpIndex\<close> list.\<close>

definition sub_readings :: "json \<Rightarrow> json list" where
  "sub_readings r = (case json_get r ''allKpIndex'' of JArr subs \<Rightarrow> subs | _ \<Rightarrow> [])"

fun is_number :: "json \<Rightarrow> bool" where
  "is_number (JNum q) = True"
| "is_number v = False"

text \<open>
  A sub-reading as the upstream service sends it: a flat object with its own
  \<open>observedTime\<close> and a numeric \<open>kpIndex\<close>.
\<close>

definition reading_ok :: "json \<Rightarrow> bool" where
  "reading_ok s =
     (flat_object s \<and> ''observedTime'' \<in> set (map fst (entries s)) \<and>
      is_number (json_get s ''kpIndex''))"

text \<open>A storm record: a flat object with at least one sub-reading, all well formed.\<close>

definition storm_ok :: "json \<Rightarrow> bool" where
  "storm_ok r = (flat_object r \<and> sub_readings r \<noteq> [] \<and> list_all reading_ok (sub_readings r))"

text \<open>A record that does not carry the list of sub-readings at all.\<close>

definition lacks_readings :: "json \<Rightarrow> bool" where
  "lacks_readings r = (flat_object r \<and> ''allKpIndex'' \<notin> set (map fst (entries r)))"

text \<open>The date of a sub-reading's own timestamp.\<close>

definition reading_date :: "(json \<Rightarrow> date option) \<Rightarrow> json \<Rightarrow> date option" where
  "reading_date to_date s =
     (case json_get s ''observedTime'' of JNull \<Rightarrow> None | v \<Rightarrow> to_date v)"

text \<open>The numeric index of a sub-reading, as the float64 the frame holds.\<close>

definition reading_value :: "json \<Rightarrow> rat option" where
  "reading_value s = (case json_get s ''kpIndex'' of JNum q \<Rightarrow> Some (float64 q) | _ \<Rightarrow> None)"


text \<open>The index values read on one date, in the order of the sub-readings.\<close>

definition values_read_on :: "(json \<Rightarrow> date option) \<Rightarrow> json list \<Rightarrow> date \<Rightarrow> rat list" where
  "values_read_on to_date ss d =
     List.map_filter reading_value (filter (\<lambda>s. reading_date to_date s = Some d) ss)"


text \<open>
  What the exploded \<open>allKpIndex\<close> column holds for one record: its sub-readings, or one
  missing value when it has none.
\<close>

definition exploded_readings :: "json \<Rightarrow> json list" where
  "exploded_readings r = (if sub_readings r = [] then [JNull] else sub_readings r)"

text \<open>The row of a frame that holds the pairs of a flat object.\<close>

definition as_cells :: "(string \<times> json) list \<Rightarrow> row" where
  "as_cells kvs = map (\<lambda>(k, v). (k, CJson v)) kvs"


subsection \<open>Collaborators for the examples\<close>

text \<open>
  A reader for timestamps that begin with \<open>YYYY-MM-DD\<close>, as the upstream service sends
  them; everything else is NaT. It stands in for \<open>pd.to_datetime\<close> in the examples.
\<close>

fun digits_value :: "string \<Rightarrow> nat" where
  "digits_value s = foldl (\<lambda>n c. 10 * n + (of_char c - 48)) 0 s"

fun iso_to_date :: "json \<Rightarrow> date option" where
  "iso_to_date (JStr s) =
     (if is_iso_date (take 10 s)
      then Some (digits_value (take 4 s), digits_value (take 2 (drop 5 s)),
                 digits_value (take 2 (drop 8 s)))
      else None)"
| "iso_to_date v = None"

text \<open>A server that answers every request with status 200 and the given JSON body.\<close>

definition serves :: "json \<Rightarrow> http" where
  "serves body = (\<lambda>url ps. Inr \<lparr>status_code = 200, body_text = [], body_json = Some body\<rparr>)"

text \<open>
  Five CME records on three days: two on 1 January 2024, one on 2 January, two on
  3 January.
\<close>

definition five_cme_records :: "json list" where
  "five_cme_records =
     [JObj [(''activityID'', JStr ''2024-01-01T02:00:00-CME-001''),
            (''startTime'', JStr ''2024-01-01T02:00Z'')],
      JObj [(''activityID'', JStr ''2024-01-01T09:12:00-CME-001''),
            (''startTime'', JStr ''2024-01-01T09:12Z'')],
      JObj [(''activityID'', JStr ''2024-01-02T17:36:00-CME-001''),
            (''startTime'', JStr ''2024-01-02T17:36Z'')],
      JObj [(''activityID'', JStr ''2024-01-03T05:00:00-CME-001''),
            (''startTime'', JStr ''2024-01-03T05:00Z'')],
      JObj [(''activityID'', JStr ''2024-01-03T22:24:00-CME-001''),
            (''startTime'', JStr ''2024-01-03T22:24Z'')]]"

text \<open>Three flare records: two on 5 January 2024, one on 7 January.\<close>

definition three_flare_records :: "json list" where
  "three_flare_records =
     [JObj [(''flrID'', JStr ''2024-01-05T10:00:00-FLR-001''),
            (''beginTime'', JStr ''2024-01-05T10:00Z''), (''classType'', JStr ''M1.2'')],
      JObj [(''flrID'', JStr ''2024-01-05T19:30:00-FLR-001''),
            (''beginTime'', JStr ''2024-01-05T19:30Z''), (''classType'', JStr ''C4.0'')],
      JObj [(''flrID'', JStr ''2024-01-07T03:15:00-FLR-001''),
            (''beginTime'', JStr ''2024-01-07T03:15Z''), (''classType'', JStr ''X1.0'')]]"




text \<open>
  A record whose first key holds a nested object with a time, followed by a top-level
  date.
\<close>

definition nested_time_record :: json where
  "nested_time_record =
     JObj [(''meta'', JObj [(''time'', JStr ''2024-01-05T10:00Z'')]),
           (''eventDate'', JStr ''2024-01-09T08:00Z'')]"

text \<open>A storm record without the list of Kp readings.\<close>

definition bare_storm_record :: json where
  "bare_storm_record =
     JObj [(''gstID'', JStr ''2024-03-02T21:00:00-GST-001''),
           (''startTime'', JStr ''2024-03-02T21:00Z'')]"

text \<open>
  The frame \<open>json_normalize\<close> builds from the three flare records, and a record set
  without any date-like key together with its frame.
\<close>

definition flare_frame :: dataframe where
  "flare_frame =
     \<lparr>columns = [''flrID'', ''beginTime'', ''classType''],
      rows = [[(''flrID'', CJson (JStr ''2024-01-05T10:00:00-FLR-001'')),
               (''beginTime'', CJson (JStr ''2024-01-05T10:00Z'')),
               (''classType'', CJson (JStr ''M1.2''))],
              [(''flrID'', CJson (JStr ''2024-01-05T19:30:00-FLR-001'')),
               (''beginTime'', CJson (JStr ''2024-01-05T19:30Z'')),
               (''classType'', CJson (JStr ''C4.0''))],
              [(''flrID'', CJson (JStr ''2024-01-07T03:15:00-FLR-001'')),
               (''beginTime'', CJson (JStr ''2024-01-07T03:15Z'')),
               (''classType'', CJson (JStr ''X1.0''))]]\<rparr>"

definition undated_records :: "json list" where
  "undated_records = [JObj [(''id'', JStr ''A1''), (''note'', JStr ''quiet'')]]"

definition undated_frame :: dataframe where
  "undated_frame =
     \<lparr>columns = [''id'', ''note''],
      rows = [[(''id'', CJson (JStr ''A1'')), (''note'', CJson (JStr ''quiet''))]]\<rparr>"


section \<open>Properties\<close>

subsection \<open>Printing numbers and dates\<close>

lemma digit_char_is_digit: "n < 10 \<Longrightarrow> is_digit (digit_char n)"
proof -
  assume "n < 10"
  then have "n \<in> {0, 1, 2, 3, 4, 5, 6, 7, 8, 9}" by auto
  then show ?thesis by (auto simp: is_digit_def digit_char_def)
qed

lemma str_nat_small: "n < 10 \<Longrightarrow> str_nat n = [digit_char n]"
  by (simp add: str_nat.simps)

lemma str_nat_step: "10 \<le> n \<Longrightarrow> str_nat n = str_nat (n div 10) @ [digit_char (n mod 10)]"
  by (subst str_nat.simps) simp

lemma str_nat_four:
  assumes "1000 \<le> y" "y \<le> 9999"
  shows "str_nat y = [digit_char (y div 1000), digit_char (y div 100 mod 10),
                      digit_char (y div 10 mod 10), digit_char (y mod 10)]"
proof -
  have a: "str_nat y = str_nat (y div 10) @ [digit_char (y mod 10)]"
    using assms by (simp add: str_nat_step)
  have b: "str_nat (y div 10) = str_nat (y div 100) @ [digit_char (y div 10 mod 10)]"
    using assms by (simp add: str_nat_step div_mult2_eq[symmetric])
  have c: "str_nat (y div 100) = str_nat (y div 1000) @ [digit_char (y div 100 mod 10)]"
    using assms by (simp add: str_nat_step div_mult2_eq[symmetric])
  have d: "str_nat (y div 1000) = [digit_char (y div 1000)]"
    using assms by (simp add: str_nat_small)
  show ?thesis by (simp add: a b c d)
qed

lemma pad2_two:
  assumes "n < 100"
  shows "pad2 n = [digit_char (n div 10), digit_char (n mod 10)]"
proof (cases "n < 10")
  case True
  then show ?thesis by (simp add: pad2_def str_nat_small digit_char_def)
next
  case False
  then have "str_nat n = str_nat (n div 10) @ [digit_char (n mod 10)]"
    by (simp add: str_nat_step)
  moreover have "str_nat (n div 10) = [digit_char (n div 10)]"
    using assms by (simp add: str_nat_small)
  ultimately show ?thesis using False by (simp add: pad2_def)
qed

lemma strftime_ymd_iso:
  assumes "picker_date dt"
  shows "is_iso_date (strftime_ymd dt)"
proof -
  obtain y m d where dt: "dt = (y, m, d)" by (cases dt) auto
  from assms dt have y: "1000 \<le> y" "y \<le> 9999" and m: "m < 100" and d: "d < 100" by auto
  have dy: "y div 1000 < 10" "y div 100 mod 10 < 10" "y div 10 mod 10 < 10" "y mod 10 < 10"
    using y by auto
  have dm: "m div 10 < 10" "m mod 10 < 10" using m by auto
  have dd: "d div 10 < 10" "d mod 10 < 10" using d by auto
  show ?thesis
    unfolding dt strftime_ymd.simps str_nat_four[OF y] pad2_two[OF m] pad2_two[OF d]
    using dy dm dd by (simp add: is_iso_date_def digit_char_is_digit)
qed

subsection \<open>Query parameters\<close>

text \<open>
  Claim C3, as the script has it. For every event code, date range and key the
  parameters are \<open>startDate\<close>, \<open>endDate\<close> and the key under the name \<open>api_key\<close>, followed
  for CME by exactly \<open>mostAccurateOnly=true\<close>, \<open>completeEntryOnly=true\<close>, \<open>speed=500\<close>,
  \<open>halfAngle=30\<close>, \<open>catalog=ALL\<close>, for notifications by exactly \<open>type=all\<close>, and by
  nothing for any other code. The two dates are printed as ISO 8601 calendar dates
  without a time component.
\<close>

theorem query_params_contents:
  "query_params event start end' key =
     [(''startDate'', PStr (strftime_ymd start)), (''endDate'', PStr (strftime_ymd end')),
      (''api_key'', PStr key)] @
     (if event = ''CME'' then
        [(''mostAccurateOnly'', PStr ''true''), (''completeEntryOnly'', PStr ''true''),
         (''speed'', PInt 500), (''halfAngle'', PInt 30), (''catalog'', PStr ''ALL'')]
      else if event = ''notifications'' then [(''type'', PStr ''all'')]
      else [])
   \<and> (picker_date start \<longrightarrow> is_iso_date (strftime_ymd start))
   \<and> (picker_date end' \<longrightarrow> is_iso_date (strftime_ymd end'))"
  by (simp add: query_params_def dict_update_def strftime_ymd_iso)

theorem query_params_contents_witness:
  "picker_date (2024, 1, 1) \<and> picker_date (2024, 1, 31) \<and>
   query_params ''CME'' (2024, 1, 1) (2024, 1, 31) ''DEMO_KEY'' =
     [(''startDate'', PStr ''2024-01-01''), (''endDate'', PStr ''2024-01-31''),
      (''api_key'', PStr ''DEMO_KEY''),
      (''mostAccurateOnly'', PStr ''true''), (''completeEntryOnly'', PStr ''true''),
      (''speed'', PInt 500), (''halfAngle'', PInt 30), (''catalog'', PStr ''ALL'')] \<and>
   is_iso_date ''2024-01-01'' \<and> is_iso_date ''2024-01-31''"
proof -
  have s: "strftime_ymd (2024, 1, 1) = ''2024-01-01''"
    "strftime_ymd (2024, 1, 31) = ''2024-01-31''"
    by code_simp+
  have p: "picker_date (2024, 1, 1)" "picker_date (2024, 1, 31)" by simp_all
  show ?thesis
    using query_params_contents [of "''CME''" "(2024, 1, 1)" "(2024, 1, 31)" "''DEMO_KEY''"] p
    unfolding s by simp
qed

text \<open>
  Claim C3 as written names the key parameter \<open>apiKey\<close>. The script sends no parameter
  of that name: the key travels as \<open>api_key\<close>.
\<close>

theorem api_key_parameter_name_counterexample:
  "map_of (query_params ''FLR'' (2024, 1, 1) (2024, 1, 31) ''DEMO_KEY'') ''apiKey'' = None \<and>
   map_of (query_params ''FLR'' (2024, 1, 1) (2024, 1, 31) ''DEMO_KEY'') ''api_key'' =
     Some (PStr ''DEMO_KEY'')"
  by (simp add: query_params_def)

subsection \<open>The date range check and the fetch\<close>

text \<open>
  Claim C1 says that a range with start after end blocks the fetch. In the script the
  check of lines 102 and 103 only shows a message in the sidebar; the handler of the
  button does not look at the dates. For every such range, with a key entered and the
  button pressed, the message is shown and the request is made all the same.
\<close>

theorem invalid_range_is_fetched:
  assumes "start_date > end_date" and "api_key \<noteq> []"
    and "map_of event_types selected_event_display = Some api_endpoint"
  shows "Sidebar_error ''Error: End date must fall after start date.''
           \<in> set (fst (app http to_date api_key selected_event_display start_date end_date True))
       \<and> Requests_get (''https://api.nasa.gov/DONKI/'' @ api_endpoint)
            (query_params api_endpoint start_date end_date api_key)
           \<in> set (fst (app http to_date api_key selected_event_display start_date end_date True))"
  using assms
  by (auto simp: app_def fetch_space_weather_def Let_def split: sum.splits option.splits prod.splits)

theorem invalid_range_is_fetched_witness:
  "((2024, 2, 1) :: date) > (2024, 1, 1) \<and> ''DEMO_KEY'' \<noteq> [] \<and>
   map_of event_types ''FLR (Solar Flare)'' = Some ''FLR'' \<and>
   Requests_get ''https://api.nasa.gov/DONKI/FLR''
      [(''startDate'', PStr ''2024-02-01''), (''endDate'', PStr ''2024-01-01''),
       (''api_key'', PStr ''DEMO_KEY'')]
     \<in> set (fst (app (serves (JArr [])) iso_to_date ''DEMO_KEY'' ''FLR (Solar Flare)''
                    (2024, 2, 1) (2024, 1, 1) True))"
proof -
  have a: "((2024, 2, 1) :: date) > (2024, 1, 1)" by simp
  have b: "''DEMO_KEY'' \<noteq> []" by simp
  have c: "map_of event_types ''FLR (Solar Flare)'' = Some ''FLR''"
    by (simp add: event_types_def)
  have q: "query_params ''FLR'' (2024, 2, 1) (2024, 1, 1) ''DEMO_KEY'' =
      [(''startDate'', PStr ''2024-02-01''), (''endDate'', PStr ''2024-01-01''),
       (''api_key'', PStr ''DEMO_KEY'')]"
    by code_simp
  show ?thesis
    using invalid_range_is_fetched [OF a b c, of "serves (JArr [])" iso_to_date] a c
    unfolding q by simp
qed

text \<open>
  Claim C6 says that an empty JSON array leads to a "no data" message. The message of
  line 294 sits under the \<open>else\<close> of the \<open>isinstance\<close> test, inside \<open>if data:\<close>, and an
  empty array is falsy: after the request the run shows nothing at all, neither a chart
  nor a message.
\<close>

theorem empty_array_shows_nothing:
  assumes "api_key \<noteq> []"
    and "map_of event_types selected_event_display = Some api_endpoint"
  shows "app (serves (JArr [])) to_date api_key selected_event_display start_date end_date True =
     ((if start_date > end_date
       then [Sidebar_error ''Error: End date must fall after start date.''] else []) @
      [Sidebar_write (dict_get event_descriptions api_endpoint ''No description available''),
       Requests_get (''https://api.nasa.gov/DONKI/'' @ api_endpoint)
         (query_params api_endpoint start_date end_date api_key)],
      None)"
  using assms
  by (simp add: app_def fetch_space_weather_def serves_def Let_def)

theorem empty_array_shows_nothing_witness:
  "''DEMO_KEY'' \<noteq> [] \<and> map_of event_types ''FLR (Solar Flare)'' = Some ''FLR'' \<and>
   St_write ''No data available for the selected parameters.''
     \<notin> set (fst (app (serves (JArr [])) iso_to_date ''DEMO_KEY'' ''FLR (Solar Flare)''
                    (2024, 1, 1) (2024, 1, 31) True)) \<and>
   snd (app (serves (JArr [])) iso_to_date ''DEMO_KEY'' ''FLR (Solar Flare)''
          (2024, 1, 1) (2024, 1, 31) True) = None"
proof -
  have b: "''DEMO_KEY'' \<noteq> []" by simp
  have c: "map_of event_types ''FLR (Solar Flare)'' = Some ''FLR''"
    by (simp add: event_types_def)
  show ?thesis
    using empty_array_shows_nothing [OF b c, of iso_to_date "(2024, 1, 1)" "(2024, 1, 31)"] c
    by simp
qed

subsection \<open>The CME branch\<close>

text \<open>
  Claim C2 expects, for five CME records on three days, the series (day1, 2), (day2, 1),
  (day3, 2) and a line chart. The grouped frame is as expected, but line 238 reads the
  undefined name \<open>label\<close> (the other branches read \<open>y_label\<close>): the run ends with a
  NameError after the headers and no chart is drawn.
\<close>

theorem cme_branch_raises:
  "(case json_normalize five_cme_records of
      Inl e \<Rightarrow> []
    | Inr df \<Rightarrow> count_grouped (snd (resolve_date iso_to_date ''CME'' df))) =
     [((2024, 1, 1), 2), ((2024, 1, 2), 1), ((2024, 1, 3), 2)]
   \<and> process iso_to_date ''CME'' ''CME (Coronal Mass Ejection)'' (2024, 1, 1) (2024, 1, 31)
       (JArr five_cme_records) =
     ([St_markdown ''### Selected Event Information'',
       St_write (dict_get event_descriptions ''CME'' ''No description available.''),
       St_subheader ''CME (Coronal Mass Ejection) from 2024-01-01 to 2024-01-31''],
      Some (NameError ''label''))"
  by code_simp

subsection \<open>Grouping by date\<close>

lemma set_map_filter_id: "set (List.map_filter (\<lambda>d. d) ds) = {d. Some d \<in> set ds}"
  by (induction ds) (auto simp: List.map_filter_simps split: option.splits)

lemma set_group_keys: "set (group_keys ds) = {d. Some d \<in> set ds}"
  by (simp add: group_keys_def set_map_filter_id)

lemma count_list_pos: "x \<in> set xs \<Longrightarrow> Suc 0 \<le> count_list xs x"
  by (induction xs) auto

lemma groupby_size_point:
  assumes "p \<in> set (groupby_size ds)"
  shows "snd p = count_list ds (Some (fst p)) \<and> 1 \<le> snd p"
  using assms by (auto simp: groupby_size_def set_group_keys count_list_pos)

lemma date_column_assign_date:
  "length ds = length (rows df) \<Longrightarrow> date_column (assign_date df ds) = ds"
proof -
  assume len: "length ds = length (rows df)"
  have "map (\<lambda>r. case map_of r ''date'' of Some (CDate d) \<Rightarrow> d | _ \<Rightarrow> None)
          (map (\<lambda>(r, d). AList.update ''date'' (CDate d) r) (zip rs ds)) = ds"
    if "length ds = length rs" for rs :: "row list"
    using that by (induction rs ds rule: list_induct2') (auto simp: update_conv')
  with len show ?thesis by (simp add: date_column_def assign_date_def)
qed

lemma resolve_date_shown:
  "ev \<in> set (fst (resolve_date to_date api_endpoint df)) \<Longrightarrow>
     (\<exists>m. ev = St_warning m) \<or> (\<exists>m. ev = St_error m)"
  by (auto simp: resolve_date_def Let_def split: option.splits list.splits if_splits)

lemma resolve_date_frame:
  assumes "\<And>ds. length ds = length (rows df) \<Longrightarrow> P (assign_date df ds)"
  shows "P (snd (resolve_date to_date api_endpoint df))"
  by (auto simp: resolve_date_def Let_def assms split: option.splits list.splits if_splits)

lemma plot_count_chart:
  assumes "api_endpoint \<noteq> ''GST''"
    and "St_plotly_chart c \<in> set (fst (plot to_date api_endpoint disp s e yl df))"
  shows "data_frame c = Counts (count_grouped df)"
  using assms by (auto simp: plot_def count_chart_def split: if_splits)

lemma process_chart_from_plot:
  assumes "St_plotly_chart c \<in> set (fst (process to_date api_endpoint disp s e data))"
  shows "\<exists>items df. data = JArr items \<and> json_normalize items = Inr df \<and>
           St_plotly_chart c \<in> set (fst (plot to_date api_endpoint disp s e
              (dict_get y_label_mapping api_endpoint ''Count'')
              (snd (resolve_date to_date api_endpoint df))))"
proof (cases data)
  case (JArr items)
  show ?thesis
  proof (cases "json_normalize items")
    case (Inl e)
    with JArr assms show ?thesis by (simp add: process_def)
  next
    case (Inr df)
    obtain shown dated where r: "resolve_date to_date api_endpoint df = (shown, dated)"
      by (cases "resolve_date to_date api_endpoint df")
    obtain drawn err where p: "plot to_date api_endpoint disp s e
        (dict_get y_label_mapping api_endpoint ''Count'') dated = (drawn, err)"
      by (cases "plot to_date api_endpoint disp s e
        (dict_get y_label_mapping api_endpoint ''Count'') dated")
    have "St_plotly_chart c \<notin> set shown"
      using resolve_date_shown[of "St_plotly_chart c" to_date api_endpoint df] r by auto
    with assms JArr Inr r p have "St_plotly_chart c \<in> set drawn"
      by (auto simp: process_def Let_def split: if_splits)
    with JArr Inr r p show ?thesis by auto
  qed
qed (use assms in \<open>auto simp: process_def\<close>)


text \<open>
  Claim C9. Every point of a count series stands for at least one row: its value is the
  number of rows of that date, and that number is at least 1. This holds for the grouped
  frame of every count branch, and so for every chart a run draws for an event code
  other than GST.
\<close>

theorem counts_are_positive:
  "(\<forall>p \<in> set (count_grouped df).
       snd p = count_list (date_column df) (Some (fst p)) \<and> 1 \<le> snd p)
   \<and> (api_endpoint \<noteq> ''GST'' \<longrightarrow>
       (\<forall>c. St_plotly_chart c \<in> set (fst (process to_date api_endpoint disp s e data)) \<longrightarrow>
          (\<exists>pts. data_frame c = Counts pts \<and> (\<forall>p \<in> set pts. 1 \<le> snd p))))"
proof (intro conjI impI allI ballI)
  fix p assume "p \<in> set (count_grouped df)"
  then show "snd p = count_list (date_column df) (Some (fst p))" "1 \<le> snd p"
    using groupby_size_point[of p "date_column df"] by (simp_all add: count_grouped_def)
next
  fix c
  assume ne: "api_endpoint \<noteq> ''GST''"
    and c: "St_plotly_chart c \<in> set (fst (process to_date api_endpoint disp s e data))"
  from process_chart_from_plot[OF c] obtain items df0 where
    "St_plotly_chart c \<in> set (fst (plot to_date api_endpoint disp s e
        (dict_get y_label_mapping api_endpoint ''Count'')
        (snd (resolve_date to_date api_endpoint df0))))" by blast
  from plot_count_chart[OF ne this]
  have "data_frame c = Counts (count_grouped (snd (resolve_date to_date api_endpoint df0)))" .
  moreover have "\<forall>p \<in> set (count_grouped (snd (resolve_date to_date api_endpoint df0))). 1 \<le> snd p"
    using groupby_size_point by (auto simp: count_grouped_def)
  ultimately show "\<exists>pts. data_frame c = Counts pts \<and> (\<forall>p \<in> set pts. 1 \<le> snd p)" by blast
qed

theorem counts_are_positive_witness:
  "''FLR'' \<noteq> ''GST'' \<and>
   St_plotly_chart
      (count_chart Bar [((2024, 1, 5), 2), ((2024, 1, 7), 1)]
         ''Number of FLR (Solar Flare) Over Time'' ''Number of Solar Flares'')
     \<in> set (fst (process iso_to_date ''FLR'' ''FLR (Solar Flare)'' (2024, 1, 1) (2024, 1, 31)
                    (JArr three_flare_records))) \<and>
   count_grouped \<lparr>columns = [''date''],
                  rows = [[(''date'', CDate (Some (2024, 1, 5)))], [(''date'', CDate None)]]\<rparr> =
     [((2024, 1, 5), 1)]"
proof -
  have ne: "''FLR'' \<noteq> ''GST''" by simp
  have mem: "St_plotly_chart
      (count_chart Bar [((2024, 1, 5), 2), ((2024, 1, 7), 1)]
         ''Number of FLR (Solar Flare) Over Time'' ''Number of Solar Flares'')
     \<in> set (fst (process iso_to_date ''FLR'' ''FLR (Solar Flare)'' (2024, 1, 1) (2024, 1, 31)
                    (JArr three_flare_records)))"
    by code_simp
  have g: "count_grouped \<lparr>columns = [''date''],
                  rows = [[(''date'', CDate (Some (2024, 1, 5)))], [(''date'', CDate None)]]\<rparr> =
     [((2024, 1, 5), 1)]"
    by code_simp
  show ?thesis
    using counts_are_positive [of "\<lparr>columns = [''date''],
                  rows = [[(''date'', CDate (Some (2024, 1, 5)))], [(''date'', CDate None)]]\<rparr>"
            "''FLR''" iso_to_date "''FLR (Solar Flare)''" "(2024, 1, 1)" "(2024, 1, 31)"
            "JArr three_flare_records"] ne mem g
    by simp
qed

subsection \<open>Rounding to float64\<close>





















subsection \<open>Means of the Kp index\<close>















subsection \<open>The event tables and the date column\<close>

lemma date_field_nonempty: "map_of date_field_mapping code = Some f \<Longrightarrow> f \<noteq> []"
  by (auto simp: date_field_mapping_def split: if_splits)


text \<open>
  Claim C8, as the script has it. The lookups never fail. For each of the nine known
  codes the tables hold a date field, an axis label and a description. For any other
  code the script falls back without a word: no configured date field, the axis label
  \<open>Count\<close>, the description \<open>No description available.\<close>, and the bar chart of the
  last branch.
\<close>

lemma columns_assign_date: "set (columns (assign_date df ds)) = insert ''date'' (set (columns df))"
  by (auto simp: assign_date_def)

lemma columns_resolve_date:
  "set (columns (snd (resolve_date to_date api_endpoint df))) = insert ''date'' (set (columns df))"
  by (rule resolve_date_frame) (rule columns_assign_date)

lemma process_list:
  assumes "json_normalize items = Inr df"
  shows "process to_date api_endpoint disp s e (JArr items) =
     (fst (resolve_date to_date api_endpoint df) @
      fst (plot to_date api_endpoint disp s e (dict_get y_label_mapping api_endpoint ''Count'')
             (snd (resolve_date to_date api_endpoint df))) @
      (if snd (plot to_date api_endpoint disp s e (dict_get y_label_mapping api_endpoint ''Count'')
             (snd (resolve_date to_date api_endpoint df))) = None
       then [St_write_frame (snd (resolve_date to_date api_endpoint df))] else []),
      snd (plot to_date api_endpoint disp s e (dict_get y_label_mapping api_endpoint ''Count'')
             (snd (resolve_date to_date api_endpoint df))))"
  using assms by (simp add: process_def Let_def split: prod.splits)


lemma starts_with_iff: "starts_with sub s \<longleftrightarrow> (\<exists>post. s = sub @ post)"
  by (induction sub s rule: starts_with.induct) auto

lemma contains_iff: "contains sub s \<longleftrightarrow> (\<exists>pre post. s = pre @ sub @ post)"
proof (induction s)
  case Nil
  then show ?case by simp
next
  case (Cons c cs)
  show ?case
  proof
    assume "contains sub (c # cs)"
    then consider "starts_with sub (c # cs)" | "contains sub cs" by auto
    then show "\<exists>pre post. c # cs = pre @ sub @ post"
    proof cases
      case 1
      then obtain post where "c # cs = sub @ post" by (auto simp: starts_with_iff)
      then have "c # cs = [] @ sub @ post" by simp
      then show ?thesis by blast
    next
      case 2
      with Cons obtain pre post where "cs = pre @ sub @ post" by blast
      then have "c # cs = (c # pre) @ sub @ post" by simp
      then show ?thesis by blast
    qed
  next
    assume "\<exists>pre post. c # cs = pre @ sub @ post"
    then obtain pre post where eq: "c # cs = pre @ sub @ post" by blast
    show "contains sub (c # cs)"
    proof (cases pre)
      case Nil
      with eq have "starts_with sub (c # cs)" by (auto simp: starts_with_iff)
      then show ?thesis by simp
    next
      case (Cons p ps)
      with eq have "cs = ps @ sub @ post" by simp
      with Cons.IH have "contains sub cs" by blast
      then show ?thesis by simp
    qed
  qed
qed

lemma filter_first:
  assumes "xs = pre @ g # post" and "P g" and "\<forall>c \<in> set pre. \<not> P c"
  shows "filter P xs = g # filter P post"
  using assms by simp

lemma group_keys_all_NaT: "group_keys (replicate n None) = []"
proof -
  have "set (group_keys (replicate n None)) = {}"
    by (auto simp: set_group_keys)
  then show ?thesis by simp
qed

lemma plot_count:
  assumes "api_endpoint \<noteq> ''CME''" and "api_endpoint \<noteq> ''GST''"
  shows "plot to_date api_endpoint disp s e yl df =
     ([St_markdown ''### Selected Event Information'',
       St_write (dict_get event_descriptions api_endpoint ''No description available.''),
       St_subheader (disp @ '' from '' @ isoformat s @ '' to '' @ isoformat e),
       St_plotly_chart
         (count_chart Bar (count_grouped df) (''Number of '' @ disp @ '' Over Time'') yl)],
      None)"
  using assms by (simp add: plot_def)

lemma resolve_date_configured:
  assumes "map_of date_field_mapping api_endpoint = Some f" and "f \<in> set (columns df)"
  shows "resolve_date to_date api_endpoint df =
           ([], assign_date df (map (\<lambda>r. cell_date to_date (cell_of r f)) (rows df)))"
  using assms date_field_nonempty[OF assms(1)] by (simp add: resolve_date_def)

lemma resolve_date_fallback:
  assumes "\<not> (\<exists>f. map_of date_field_mapping api_endpoint = Some f \<and> f \<in> set (columns df))"
  shows "resolve_date to_date api_endpoint df =
     (case filter date_like (columns df) of
        g # others \<Rightarrow>
          ([St_warning (''Using '' @ [CHR 0x27] @ g @ [CHR 0x27] @ '' as the date field'')],
           assign_date df (map (\<lambda>r. cell_date to_date (cell_of r g)) (rows df)))
      | [] \<Rightarrow>
          ([St_error ''No suitable date field found in the data''],
           assign_date df (replicate (length (rows df)) None)))"
  using assms by (auto simp: resolve_date_def split: option.splits list.splits)




lemma date_read_cell: "date_read to_date r f = cell_date to_date (cell_of r f)"
proof (cases "map_of r f")
  case None
  then show ?thesis by (simp add: date_read_def cell_of_def)
next
  case (Some c)
  show ?thesis
  proof (cases c)
    case (CJson v)
    with Some show ?thesis by (cases v) (simp_all add: date_read_def cell_of_def)
  next
    case (CDate d)
    with Some show ?thesis by (simp add: date_read_def cell_of_def)
  qed
qed

lemma assign_date_content:
  assumes "length ds = length (rows df)"
  shows "map (\<lambda>r. map_of r ''date'') (rows (assign_date df ds)) = map (\<lambda>d. Some (CDate d)) ds"
proof -
  have "map (\<lambda>r. map_of r ''date'')
          (map (\<lambda>(r, d). AList.update ''date'' (CDate d) r) (zip rs ds)) = map (\<lambda>d. Some (CDate d)) ds"
    if "length ds = length rs" for rs :: "row list"
    using that by (induction rs ds rule: list_induct2') (auto simp: update_conv')
  with assms show ?thesis by (simp add: assign_date_def)
qed

lemma assign_date_others:
  assumes "k \<noteq> ''date''" and "length ds = length (rows df)"
  shows "map (\<lambda>r. map_of r k) (rows (assign_date df ds)) = map (\<lambda>r. map_of r k) (rows df)"
proof -
  have "map (\<lambda>r. map_of r k)
          (map (\<lambda>(r, d). AList.update ''date'' (CDate d) r) (zip rs ds)) = map (\<lambda>r. map_of r k) rs"
    if "length ds = length rs" for rs :: "row list"
    using that assms(1) by (induction rs ds rule: list_induct2') (auto simp: update_conv')
  with assms(2) show ?thesis by (simp add: assign_date_def)
qed

lemma resolve_date_keeps:
  "columns (snd (resolve_date to_date api_endpoint df)) =
     (if ''date'' \<in> set (columns df) then columns df else columns df @ [''date''])"
  "k \<noteq> ''date'' \<Longrightarrow>
     map (\<lambda>r. map_of r k) (rows (snd (resolve_date to_date api_endpoint df))) =
     map (\<lambda>r. map_of r k) (rows df)"
proof -
  show "columns (snd (resolve_date to_date api_endpoint df)) =
     (if ''date'' \<in> set (columns df) then columns df else columns df @ [''date''])"
    by (rule resolve_date_frame[where P = "\<lambda>x. columns x =
          (if ''date'' \<in> set (columns df) then columns df else columns df @ [''date''])"])
       (simp add: assign_date_def)
  assume k: "k \<noteq> ''date''"
  show "map (\<lambda>r. map_of r k) (rows (snd (resolve_date to_date api_endpoint df))) =
     map (\<lambda>r. map_of r k) (rows df)"
    by (rule resolve_date_frame[where P = "\<lambda>x. map (\<lambda>r. map_of r k) (rows x) =
          map (\<lambda>r. map_of r k) (rows df)"])
       (rule assign_date_others[OF k])
qed




subsection \<open>Resolving the date column\<close>

lemma resolve_date_content:
  assumes "resolve_date to_date api_endpoint df =
             (shown, assign_date df (map (\<lambda>r. cell_date to_date (cell_of r f)) (rows df)))"
  shows "map (\<lambda>r. map_of r ''date'') (rows (snd (resolve_date to_date api_endpoint df))) =
         map (\<lambda>r. Some (CDate (date_read to_date r f))) (rows df)"
  unfolding assms by (simp add: assign_date_content date_read_cell comp_def)


text \<open>
  Claim C5, as the script has it. A column label is date-like when its lower-case form
  contains \<open>date\<close> or \<open>time\<close>. Resolving the date adds or overwrites the \<open>date\<close>
  column and leaves every other column as it was. The date of each row is read from
  the configured date field when that label is among the columns of the flattened
  frame; otherwise from the first date-like label in the column order of that frame
  (the script then says which one it took); and when there is none, every row's date
  is NaT, the message \<open>No suitable date field found in the data\<close> is shown without
  ending the run, and the run goes on into the plotting branch of the event: for a
  count branch other than CME it draws the chart of the empty series and shows the raw
  data.
\<close>

theorem date_source_resolution:
  "(date_like col \<longleftrightarrow>
      (\<exists>p q. lower col = p @ ''date'' @ q) \<or> (\<exists>p q. lower col = p @ ''time'' @ q))
   \<and> columns (snd (resolve_date to_date api_endpoint df)) =
       (if ''date'' \<in> set (columns df) then columns df else columns df @ [''date''])
   \<and> (k \<noteq> ''date'' \<longrightarrow>
        map (\<lambda>r. map_of r k) (rows (snd (resolve_date to_date api_endpoint df))) =
        map (\<lambda>r. map_of r k) (rows df))
   \<and> (map_of date_field_mapping api_endpoint = Some f \<and> f \<in> set (columns df) \<longrightarrow>
        fst (resolve_date to_date api_endpoint df) = [] \<and>
        map (\<lambda>r. map_of r ''date'') (rows (snd (resolve_date to_date api_endpoint df))) =
          map (\<lambda>r. Some (CDate (date_read to_date r f))) (rows df))
   \<and> (\<not> (\<exists>f. map_of date_field_mapping api_endpoint = Some f \<and> f \<in> set (columns df)) \<and>
        columns df = pre @ g # post \<and> date_like g \<and> (\<forall>c \<in> set pre. \<not> date_like c) \<longrightarrow>
        fst (resolve_date to_date api_endpoint df) =
          [St_warning (''Using '' @ [CHR 0x27] @ g @ [CHR 0x27] @ '' as the date field'')] \<and>
        map (\<lambda>r. map_of r ''date'') (rows (snd (resolve_date to_date api_endpoint df))) =
          map (\<lambda>r. Some (CDate (date_read to_date r g))) (rows df))
   \<and> (\<not> (\<exists>f. map_of date_field_mapping api_endpoint = Some f \<and> f \<in> set (columns df)) \<and>
        (\<forall>c \<in> set (columns df). \<not> date_like c) \<longrightarrow>
        fst (resolve_date to_date api_endpoint df) =
          [St_error ''No suitable date field found in the data''] \<and>
        map (\<lambda>r. map_of r ''date'') (rows (snd (resolve_date to_date api_endpoint df))) =
          map (\<lambda>r. Some (CDate None)) (rows df) \<and>
        (json_normalize items = Inr df \<longrightarrow>
           process to_date api_endpoint disp s e (JArr items) =
             (St_error ''No suitable date field found in the data'' #
              fst (plot to_date api_endpoint disp s e
                     (dict_get y_label_mapping api_endpoint ''Count'')
                     (snd (resolve_date to_date api_endpoint df))) @
              (if snd (plot to_date api_endpoint disp s e
                         (dict_get y_label_mapping api_endpoint ''Count'')
                         (snd (resolve_date to_date api_endpoint df))) = None
               then [St_write_frame (snd (resolve_date to_date api_endpoint df))] else []),
              snd (plot to_date api_endpoint disp s e
                     (dict_get y_label_mapping api_endpoint ''Count'')
                     (snd (resolve_date to_date api_endpoint df))))) \<and>
        (json_normalize items = Inr df \<and> api_endpoint \<noteq> ''CME'' \<and> api_endpoint \<noteq> ''GST'' \<longrightarrow>
           process to_date api_endpoint disp s e (JArr items) =
             ([St_error ''No suitable date field found in the data'',
               St_markdown ''### Selected Event Information'',
               St_write (dict_get event_descriptions api_endpoint ''No description available.''),
               St_subheader (disp @ '' from '' @ isoformat s @ '' to '' @ isoformat e),
               St_plotly_chart
                 (count_chart Bar [] (''Number of '' @ disp @ '' Over Time'')
                    (dict_get y_label_mapping api_endpoint ''Count'')),
               St_write_frame (snd (resolve_date to_date api_endpoint df))],
              None)))"
proof (intro conjI impI)
  show "date_like col \<longleftrightarrow>
      (\<exists>p q. lower col = p @ ''date'' @ q) \<or> (\<exists>p q. lower col = p @ ''time'' @ q)"
    unfolding date_like_def contains_iff ..
next
  show "columns (snd (resolve_date to_date api_endpoint df)) =
       (if ''date'' \<in> set (columns df) then columns df else columns df @ [''date''])"
    by (rule resolve_date_keeps(1))
next
  assume "k \<noteq> ''date''"
  then show "map (\<lambda>r. map_of r k) (rows (snd (resolve_date to_date api_endpoint df))) =
        map (\<lambda>r. map_of r k) (rows df)"
    by (rule resolve_date_keeps(2))
next
  assume a: "map_of date_field_mapping api_endpoint = Some f \<and> f \<in> set (columns df)"
  then have r: "resolve_date to_date api_endpoint df =
          ([], assign_date df (map (\<lambda>r. cell_date to_date (cell_of r f)) (rows df)))"
    by (simp add: resolve_date_configured)
  show "fst (resolve_date to_date api_endpoint df) = []" by (simp add: r)
  show "map (\<lambda>r. map_of r ''date'') (rows (snd (resolve_date to_date api_endpoint df))) =
          map (\<lambda>r. Some (CDate (date_read to_date r f))) (rows df)"
    by (rule resolve_date_content[OF r])
next
  assume a: "\<not> (\<exists>f. map_of date_field_mapping api_endpoint = Some f \<and> f \<in> set (columns df)) \<and>
        columns df = pre @ g # post \<and> date_like g \<and> (\<forall>c \<in> set pre. \<not> date_like c)"
  then have nf: "\<not> (\<exists>f. map_of date_field_mapping api_endpoint = Some f \<and> f \<in> set (columns df))"
    by blast
  from a have fl: "filter date_like (columns df) = g # filter date_like post"
    by (intro filter_first[of _ pre g post]) auto
  have r: "resolve_date to_date api_endpoint df =
          ([St_warning (''Using '' @ [CHR 0x27] @ g @ [CHR 0x27] @ '' as the date field'')],
           assign_date df (map (\<lambda>r. cell_date to_date (cell_of r g)) (rows df)))"
    unfolding resolve_date_fallback[OF nf] fl by simp
  show "fst (resolve_date to_date api_endpoint df) =
          [St_warning (''Using '' @ [CHR 0x27] @ g @ [CHR 0x27] @ '' as the date field'')]"
    by (simp add: r)
  show "map (\<lambda>r. map_of r ''date'') (rows (snd (resolve_date to_date api_endpoint df))) =
          map (\<lambda>r. Some (CDate (date_read to_date r g))) (rows df)"
    by (rule resolve_date_content[OF r])
next
  assume a: "\<not> (\<exists>f. map_of date_field_mapping api_endpoint = Some f \<and> f \<in> set (columns df)) \<and>
        (\<forall>c \<in> set (columns df). \<not> date_like c)"
  then have nf: "\<not> (\<exists>f. map_of date_field_mapping api_endpoint = Some f \<and> f \<in> set (columns df))"
    by blast
  from a have fl: "filter date_like (columns df) = []" by (simp add: filter_empty_conv)
  have r: "resolve_date to_date api_endpoint df =
          ([St_error ''No suitable date field found in the data''],
           assign_date df (replicate (length (rows df)) None))"
    unfolding resolve_date_fallback[OF nf] fl by simp
  show "fst (resolve_date to_date api_endpoint df) =
          [St_error ''No suitable date field found in the data'']"
    by (simp add: r)
  show "map (\<lambda>r. map_of r ''date'') (rows (snd (resolve_date to_date api_endpoint df))) =
          map (\<lambda>r. Some (CDate None)) (rows df)"
    unfolding r by (simp add: assign_date_content map_replicate_const)
  {
    assume j: "json_normalize items = Inr df"
    show "process to_date api_endpoint disp s e (JArr items) =
             (St_error ''No suitable date field found in the data'' #
              fst (plot to_date api_endpoint disp s e
                     (dict_get y_label_mapping api_endpoint ''Count'')
                     (snd (resolve_date to_date api_endpoint df))) @
              (if snd (plot to_date api_endpoint disp s e
                         (dict_get y_label_mapping api_endpoint ''Count'')
                         (snd (resolve_date to_date api_endpoint df))) = None
               then [St_write_frame (snd (resolve_date to_date api_endpoint df))] else []),
              snd (plot to_date api_endpoint disp s e
                     (dict_get y_label_mapping api_endpoint ''Count'')
                     (snd (resolve_date to_date api_endpoint df))))"
      unfolding process_list[OF j] by (simp add: r)
  }
  assume b: "json_normalize items = Inr df \<and> api_endpoint \<noteq> ''CME'' \<and> api_endpoint \<noteq> ''GST''"
  have "date_column (assign_date df (replicate (length (rows df)) None)) =
          replicate (length (rows df)) None"
    by (simp add: date_column_assign_date)
  then have "count_grouped (assign_date df (replicate (length (rows df)) None)) = []"
    by (simp add: count_grouped_def groupby_size_def group_keys_all_NaT)
  then show "process to_date api_endpoint disp s e (JArr items) =
             ([St_error ''No suitable date field found in the data'',
               St_markdown ''### Selected Event Information'',
               St_write (dict_get event_descriptions api_endpoint ''No description available.''),
               St_subheader (disp @ '' from '' @ isoformat s @ '' to '' @ isoformat e),
               St_plotly_chart
                 (count_chart Bar [] (''Number of '' @ disp @ '' Over Time'')
                    (dict_get y_label_mapping api_endpoint ''Count'')),
               St_write_frame (snd (resolve_date to_date api_endpoint df))],
              None)"
    using b by (simp add: process_list r plot_count)
qed


theorem date_source_resolution_witness:
  "map_of date_field_mapping ''FLR'' = Some ''beginTime'' \<and>
   ''beginTime'' \<in> set (columns flare_frame) \<and>
   fst (resolve_date iso_to_date ''FLR'' flare_frame) = [] \<and>
   map (\<lambda>r. map_of r ''date'') (rows (snd (resolve_date iso_to_date ''FLR'' flare_frame))) =
     [Some (CDate (Some (2024, 1, 5))), Some (CDate (Some (2024, 1, 5))),
      Some (CDate (Some (2024, 1, 7)))] \<and>
   map_of date_field_mapping ''XYZ'' = None \<and>
   columns flare_frame = [''flrID''] @ ''beginTime'' # [''classType''] \<and>
   date_like ''beginTime'' \<and> \<not> date_like ''flrID'' \<and>
   fst (resolve_date iso_to_date ''XYZ'' flare_frame) =
     [St_warning ''Using 'beginTime' as the date field''] \<and>
   map (\<lambda>r. map_of r ''date'') (rows (snd (resolve_date iso_to_date ''XYZ'' flare_frame))) =
     [Some (CDate (Some (2024, 1, 5))), Some (CDate (Some (2024, 1, 5))),
      Some (CDate (Some (2024, 1, 7)))] \<and>
   json_normalize undated_records = Inr undated_frame \<and>
   \<not> date_like ''id'' \<and> \<not> date_like ''note'' \<and>
   map (\<lambda>r. map_of r ''date'') (rows (snd (resolve_date iso_to_date ''FLR'' undated_frame))) =
     [Some (CDate None)] \<and>
   process iso_to_date ''FLR'' ''FLR (Solar Flare)'' (2024, 1, 1) (2024, 1, 31)
       (JArr undated_records) =
     ([St_error ''No suitable date field found in the data'',
       St_markdown ''### Selected Event Information'',
       St_write (dict_get event_descriptions ''FLR'' ''No description available.''),
       St_subheader ''FLR (Solar Flare) from 2024-01-01 to 2024-01-31'',
       St_plotly_chart
         (count_chart Bar [] ''Number of FLR (Solar Flare) Over Time'' ''Number of Solar Flares''),
       St_write_frame (snd (resolve_date iso_to_date ''FLR'' undated_frame))],
      None)"
proof -
  have m1: "map_of date_field_mapping ''FLR'' = Some ''beginTime''"
    and m2: "map_of date_field_mapping ''XYZ'' = None"
    by (simp_all add: date_field_mapping_def)
  have c1: "''beginTime'' \<in> set (columns flare_frame)"
    and c2: "columns flare_frame = [''flrID''] @ ''beginTime'' # [''classType'']"
    and c3: "''beginTime'' \<notin> set (columns undated_frame)"
    and c4: "columns undated_frame = [''id'', ''note'']"
    by (simp_all add: flare_frame_def undated_frame_def)
  have d: "date_like ''beginTime''" "\<not> date_like ''flrID''" "\<not> date_like ''id''"
    "\<not> date_like ''note''"
    by code_simp+
  have j: "json_normalize undated_records = Inr undated_frame" by code_simp
  have v: "map (\<lambda>r. Some (CDate (date_read iso_to_date r ''beginTime''))) (rows flare_frame) =
             [Some (CDate (Some (2024, 1, 5))), Some (CDate (Some (2024, 1, 5))),
              Some (CDate (Some (2024, 1, 7)))]"
    "map (\<lambda>r. Some (CDate None :: cell)) (rows undated_frame) = [Some (CDate None)]"
    by code_simp+
  have s: "isoformat (2024, 1, 1) = ''2024-01-01''" "isoformat (2024, 1, 31) = ''2024-01-31''"
    "dict_get y_label_mapping ''FLR'' ''Count'' = ''Number of Solar Flares''"
    by code_simp+
  have A: "fst (resolve_date iso_to_date ''FLR'' flare_frame) = [] \<and>
     map (\<lambda>r. map_of r ''date'') (rows (snd (resolve_date iso_to_date ''FLR'' flare_frame))) =
       map (\<lambda>r. Some (CDate (date_read iso_to_date r ''beginTime''))) (rows flare_frame)"
    using date_source_resolution [where api_endpoint = "''FLR''" and f = "''beginTime''"
        and df = flare_frame and to_date = iso_to_date] m1 c1
    by blast
  have B: "fst (resolve_date iso_to_date ''XYZ'' flare_frame) =
       [St_warning (''Using '' @ [CHR 0x27] @ ''beginTime'' @ [CHR 0x27] @ '' as the date field'')] \<and>
     map (\<lambda>r. map_of r ''date'') (rows (snd (resolve_date iso_to_date ''XYZ'' flare_frame))) =
       map (\<lambda>r. Some (CDate (date_read iso_to_date r ''beginTime''))) (rows flare_frame)"
    using date_source_resolution [where api_endpoint = "''XYZ''" and g = "''beginTime''"
        and pre = "[''flrID'']" and post = "[''classType'']"
        and df = flare_frame and to_date = iso_to_date] m2 c2 d
    by simp
  have h6: "\<not> (\<exists>f. map_of date_field_mapping ''FLR'' = Some f \<and> f \<in> set (columns undated_frame)) \<and>
        (\<forall>c \<in> set (columns undated_frame). \<not> date_like c)"
    using m1 c3 c4 d by simp
  note T = date_source_resolution [where api_endpoint = "''FLR''" and df = undated_frame
        and to_date = iso_to_date and items = undated_records
        and disp = "''FLR (Solar Flare)''" and s = "(2024, 1, 1)" and e = "(2024, 1, 31)",
        THEN conjunct2, THEN conjunct2, THEN conjunct2, THEN conjunct2, THEN conjunct2,
        THEN mp, OF h6]
  have C1: "map (\<lambda>r. map_of r ''date'') (rows (snd (resolve_date iso_to_date ''FLR'' undated_frame))) =
       map (\<lambda>r. Some (CDate None)) (rows undated_frame)"
    using T by (rule conjunct2[THEN conjunct1])
  have h7: "json_normalize undated_records = Inr undated_frame \<and> ''FLR'' \<noteq> ''CME'' \<and>
            ''FLR'' \<noteq> ''GST''"
    using j by simp
  have C2: "process iso_to_date ''FLR'' ''FLR (Solar Flare)'' (2024, 1, 1) (2024, 1, 31)
       (JArr undated_records) =
     ([St_error ''No suitable date field found in the data'',
       St_markdown ''### Selected Event Information'',
       St_write (dict_get event_descriptions ''FLR'' ''No description available.''),
       St_subheader (''FLR (Solar Flare)'' @ '' from '' @ isoformat (2024, 1, 1) @ '' to '' @
                     isoformat (2024, 1, 31)),
       St_plotly_chart
         (count_chart Bar [] (''Number of '' @ ''FLR (Solar Flare)'' @ '' Over Time'')
            (dict_get y_label_mapping ''FLR'' ''Count'')),
       St_write_frame (snd (resolve_date iso_to_date ''FLR'' undated_frame))],
      None)"
    using T[THEN conjunct2, THEN conjunct2, THEN conjunct2, THEN mp, OF h7] .
  have C2': "process iso_to_date ''FLR'' ''FLR (Solar Flare)'' (2024, 1, 1) (2024, 1, 31)
       (JArr undated_records) =
     ([St_error ''No suitable date field found in the data'',
       St_markdown ''### Selected Event Information'',
       St_write (dict_get event_descriptions ''FLR'' ''No description available.''),
       St_subheader ''FLR (Solar Flare) from 2024-01-01 to 2024-01-31'',
       St_plotly_chart
         (count_chart Bar [] ''Number of FLR (Solar Flare) Over Time'' ''Number of Solar Flares''),
       St_write_frame (snd (resolve_date iso_to_date ''FLR'' undated_frame))],
      None)"
    unfolding C2 s by simp
  show ?thesis
    using m1 m2 c1 c2 d j A B C1 C2' unfolding v by simp
qed

text \<open>
  Claim C5 as written takes the first date-like key in the original key order of the
  record. \<open>json_normalize\<close> lists the top-level scalars of a record before its
  flattened nested keys, and the script searches the columns of the frame: for a record
  with \<open>meta.time\<close> before \<open>eventDate\<close> it takes \<open>eventDate\<close>.
\<close>

theorem column_order_counterexample:
  "original_keys nested_time_record = [''meta.time'', ''eventDate''] \<and>
   date_like ''meta.time'' \<and>
   map_of date_field_mapping ''FLR'' = Some ''beginTime'' \<and>
   json_normalize [nested_time_record] =
     Inr \<lparr>columns = [''eventDate'', ''meta.time''],
          rows = [[(''eventDate'', CJson (JStr ''2024-01-09T08:00Z'')),
                   (''meta.time'', CJson (JStr ''2024-01-05T10:00Z''))]]\<rparr> \<and>
   process iso_to_date ''FLR'' ''FLR (Solar Flare)'' (2024, 1, 1) (2024, 1, 31)
       (JArr [nested_time_record]) =
     ([St_warning ''Using 'eventDate' as the date field'',
       St_markdown ''### Selected Event Information'',
       St_write (dict_get event_descriptions ''FLR'' ''No description available.''),
       St_subheader ''FLR (Solar Flare) from 2024-01-01 to 2024-01-31'',
       St_plotly_chart
         (count_chart Bar [((2024, 1, 9), 1)] ''Number of FLR (Solar Flare) Over Time''
            ''Number of Solar Flares''),
       St_write_frame
         \<lparr>columns = [''eventDate'', ''meta.time'', ''date''],
          rows = [[(''eventDate'', CJson (JStr ''2024-01-09T08:00Z'')),
                   (''meta.time'', CJson (JStr ''2024-01-05T10:00Z'')),
                   (''date'', CDate (Some (2024, 1, 9)))]]\<rparr>],
      None)"
  by code_simp

end
